theory Spec2Isabelle
  imports Main
begin

section \<open>The rules engine (chess.js), taken as a parameter\<close>

text \<open>
  \<^verbatim>\<open>App.tsx\<close> imports \<^verbatim>\<open>Chess\<close> and \<^verbatim>\<open>Square\<close> from the external library chess.js.
  The library is not part of the repository, so every function of this development takes
  the engine as its first argument \<open>E\<close>: a record of the methods that \<^verbatim>\<open>App.tsx\<close> calls
  on a \<^verbatim>\<open>Chess\<close> object. The type \<open>'p\<close> is the type of \<^verbatim>\<open>Chess\<close> objects; a \<^verbatim>\<open>Square\<close> and
  a FEN are strings, as in the source.
\<close>

datatype color = W | B

record piece =
  pcolor :: color
  ptype :: string

text \<open>An entry of \<^verbatim>\<open>game.moves({ square, verbose: true })\<close>; the source reads only \<^verbatim>\<open>.to\<close>.\<close>

record vmove =
  mfrom :: string
  mto :: string

text \<open>
  The argument of \<^verbatim>\<open>newGame.move(...)\<close>: the oracle's text, or the object
  \<^verbatim>\<open>{ from, to, promotion }\<close> of the manual path.
\<close>

datatype move_arg = MoveText string | MoveObj string string string

text \<open>
  \<^verbatim>\<open>newGame.move(...)\<close> either throws (chess.js from 1.0 on, for an illegal move),
  returns \<^verbatim>\<open>null\<close> (older versions), or updates \<^verbatim>\<open>newGame\<close> and returns a move object,
  of which the source reads \<^verbatim>\<open>.san\<close>. \<open>MoveOk p n\<close> carries the updated object and the
  notation. The source handles all three, and so does the model.
\<close>

datatype 'p move_result = MoveThrows | MoveNull | MoveOk 'p string

record 'p engine =
  new_Chess :: 'p
  load :: "string \<Rightarrow> 'p"
  fen :: "'p \<Rightarrow> string"
  turn :: "'p \<Rightarrow> color"
  isGameOver :: "'p \<Rightarrow> bool"
  isCheckmate :: "'p \<Rightarrow> bool"
  isDraw :: "'p \<Rightarrow> bool"
  isStalemate :: "'p \<Rightarrow> bool"
  isThreefoldRepetition :: "'p \<Rightarrow> bool"
  isInsufficientMaterial :: "'p \<Rightarrow> bool"
  get :: "'p \<Rightarrow> string \<Rightarrow> piece option"
  moves :: "'p \<Rightarrow> string \<Rightarrow> vmove list"
  move :: "'p \<Rightarrow> move_arg \<Rightarrow> 'p move_result"

text \<open>
  \<open>new_Chess E\<close> is \<^verbatim>\<open>new Chess()\<close> and \<open>load E f\<close> is \<^verbatim>\<open>new Chess(f)\<close>. The queries
  (\<open>fen\<close>, \<open>turn\<close>, \<open>isGameOver\<close>, \<open>get\<close>, \<open>moves\<close>) and the constructor are total: the
  source calls them on squares of type \<^verbatim>\<open>Square\<close> and on FENs that \<^verbatim>\<open>game.fen()\<close>
  produced. Only \<open>move\<close> can throw.
\<close>

section \<open>The state of the App component\<close>

text \<open>
  One field for each \<^verbatim>\<open>useState\<close> of \<^verbatim>\<open>App\<close> (lines 10 to 21), under the source's
  names. \<^verbatim>\<open>null\<close> is \<open>None\<close>. \<open>currentPosition\<close> is an option because \<^verbatim>\<open>navigateMove\<close>
  stores \<^verbatim>\<open>positions[newIndex]\<close>, which is \<^verbatim>\<open>undefined\<close> out of range.

  \<open>pending\<close> is not a \<^verbatim>\<open>useState\<close>: it lists the calls of \<^verbatim>\<open>getBestMoveOnline\<close> that have
  been issued and have not settled yet. Each entry is the \<^verbatim>\<open>game\<close> that the closure of
  \<^verbatim>\<open>calculateAndPlayBestMove\<close> captured when it issued the call; the code after the
  \<^verbatim>\<open>await\<close> reads that object, not the current state.
\<close>

record 'p app =
  game :: 'p
  moveHistory :: "string list"
  currentPosition :: "string option"
  isAnalyzing :: bool
  playerColor :: "color option"
  selectedSquare :: "string option"
  possibleMoves :: "string list"
  lastMove :: "string option"
  errorMessage :: "string option"
  currentMoveIndex :: int
  gameEndMessage :: "string option"
  positions :: "string list"
  pending :: "'p list"

definition App_init :: "'p engine \<Rightarrow> 'p app" where
  "App_init E =
     \<lparr> game = new_Chess E,
       moveHistory = [],
       currentPosition = Some (fen E (new_Chess E)),
       isAnalyzing = False,
       playerColor = None,
       selectedSquare = None,
       possibleMoves = [],
       lastMove = None,
       errorMessage = None,
       currentMoveIndex = - 1,
       gameEndMessage = None,
       positions = [],
       pending = [] \<rparr>"

definition autoColor :: "'p app \<Rightarrow> color option" where
  "autoColor s = playerColor s"

definition manualColor :: "'p app \<Rightarrow> color option" where
  "manualColor s =
     (case playerColor s of
        None \<Rightarrow> None
      | Some c \<Rightarrow> (if c = W then Some B else Some W))"

section \<open>stockfishAPI.ts\<close>

text \<open>
  What \<^verbatim>\<open>axios.post(url)\<close> does is the input of the model: the call fails, or it returns
  a response whose data has the fields \<^verbatim>\<open>success\<close> and \<^verbatim>\<open>bestmove\<close>. A field that is
  absent, \<^verbatim>\<open>undefined\<close> or \<^verbatim>\<open>null\<close> is \<open>None\<close> (for \<^verbatim>\<open>success\<close>: \<open>False\<close>, its truth value).
  The function is declared to return \<^verbatim>\<open>Promise<string>\<close>, so \<^verbatim>\<open>bestmove\<close> is a string.
\<close>

datatype http_result = PostFails | PostReturns bool "string option"

datatype api_error = AxiosError | NoValidBestMove

text \<open>A string is truthy in JavaScript when it is not empty.\<close>

definition truthy :: "string option \<Rightarrow> bool" where
  "truthy v = (case v of None \<Rightarrow> False | Some t \<Rightarrow> t \<noteq> [])"

text \<open>\<open>Inl e\<close>: the promise rejects (the \<^verbatim>\<open>catch\<close> logs and throws again); \<open>Inr t\<close>: it resolves to \<open>t\<close>.\<close>

definition getBestMoveOnline :: "http_result \<Rightarrow> api_error + string" where
  "getBestMoveOnline h =
     (case h of
        PostFails \<Rightarrow> Inl AxiosError
      | PostReturns success bestmove \<Rightarrow>
          (if success \<and> truthy bestmove
           then (case bestmove of Some t \<Rightarrow> Inr t | None \<Rightarrow> Inl NoValidBestMove)
           else Inl NoValidBestMove))"

section \<open>The functions of App.tsx\<close>

subsection \<open>The auto-move effect and calculateAndPlayBestMove\<close>

text \<open>
  \<^verbatim>\<open>calculateAndPlayBestMove\<close> is an \<^verbatim>\<open>async\<close> function with one \<^verbatim>\<open>await\<close>. The model has
  one function for the part before the \<^verbatim>\<open>await\<close> (lines 64 to 67: the request is issued
  with the \<^verbatim>\<open>game\<close> of the render) and one for the part after it (lines 68 to 92).
\<close>

definition calculateAndPlayBestMove_issue :: "'p engine \<Rightarrow> 'p app \<Rightarrow> 'p app" where
  "calculateAndPlayBestMove_issue E s =
     (if isGameOver E (game s) then s
      else s\<lparr> isAnalyzing := True, pending := pending s @ [game s] \<rparr>)"

text \<open>Which \<^verbatim>\<open>return\<close> or \<^verbatim>\<open>catch\<close> of lines 68 to 87 the continuation leaves through.\<close>

datatype oracle_outcome = FailedSuggestion | InvalidAIMove | Played | ErrorCalculating

text \<open>
  Lines 68 to 87. \<open>g\<close> is the captured \<^verbatim>\<open>game\<close>, \<open>r\<close> is what the \<^verbatim>\<open>await\<close> produced.
  \<^verbatim>\<open>setMoveHistory\<close>, \<^verbatim>\<open>setPositions\<close> and \<^verbatim>\<open>setCurrentMoveIndex\<close> take a function of the
  previous value, so they read the state \<open>s\<close> at the time the response arrives.
\<close>

definition calculateAndPlayBestMove_try ::
  "'p engine \<Rightarrow> 'p \<Rightarrow> api_error + string \<Rightarrow> 'p app \<Rightarrow> oracle_outcome \<times> 'p app" where
  "calculateAndPlayBestMove_try E g r s =
     (case r of
        Inl e \<Rightarrow> (ErrorCalculating, s\<lparr> errorMessage := Some ''Error calculating move'' \<rparr>)
      | Inr bestMove \<Rightarrow>
          (if bestMove = []
           then (FailedSuggestion, s\<lparr> errorMessage := Some ''Failed to get AI move suggestion'' \<rparr>)
           else
             (case move E (load E (fen E g)) (MoveText bestMove) of
                MoveThrows \<Rightarrow>
                  (ErrorCalculating, s\<lparr> errorMessage := Some ''Error calculating move'' \<rparr>)
              | MoveNull \<Rightarrow> (InvalidAIMove, s\<lparr> errorMessage := Some ''Invalid AI move'' \<rparr>)
              | MoveOk newGame san \<Rightarrow>
                  (Played,
                   s\<lparr> game := newGame,
                      currentPosition := Some (fen E newGame),
                      moveHistory := moveHistory s @ [san],
                      positions := positions s @ [fen E newGame],
                      currentMoveIndex := currentMoveIndex s + 1,
                      lastMove := Some san \<rparr>))))"

text \<open>Lines 68 to 92: the \<^verbatim>\<open>try\<close> followed by the \<^verbatim>\<open>finally\<close> block.\<close>

definition calculateAndPlayBestMove_resume ::
  "'p engine \<Rightarrow> 'p \<Rightarrow> api_error + string \<Rightarrow> 'p app \<Rightarrow> oracle_outcome \<times> 'p app" where
  "calculateAndPlayBestMove_resume E g r s =
     (case calculateAndPlayBestMove_try E g r s of
        (out, s') \<Rightarrow>
          (out, s'\<lparr> isAnalyzing := False, selectedSquare := None, possibleMoves := [] \<rparr>))"

text \<open>
  The game-end banner of the effect (lines 42 to 59). The emoji that end the
  source's messages are left out of the strings.
\<close>

definition endMessage :: "'p engine \<Rightarrow> 'p \<Rightarrow> string option" where
  "endMessage E g =
     (if isGameOver E g then
        Some (if isCheckmate E g then
                (if turn E g = W then ''Checkmate! Black wins!'' else ''Checkmate! White wins!'')
              else if isDraw E g then ''It's a draw!''
              else if isStalemate E g then ''Stalemate! Game is drawn!''
              else if isThreefoldRepetition E g then ''Draw by repetition!''
              else if isInsufficientMaterial E g then ''Draw by insufficient material!''
              else [])
      else None)"

text \<open>The condition of \<^verbatim>\<open>makeAutoMove\<close>, lines 31 to 36.\<close>

definition makeAutoMove_guard :: "'p engine \<Rightarrow> 'p app \<Rightarrow> bool" where
  "makeAutoMove_guard E s =
     (autoColor s \<noteq> None \<and> Some (turn E (game s)) = autoColor s
      \<and> \<not> isGameOver E (game s) \<and> \<not> isAnalyzing s)"

text \<open>The body of the effect, lines 30 to 59.\<close>

definition useEffect :: "'p engine \<Rightarrow> 'p app \<Rightarrow> 'p app" where
  "useEffect E s =
     (let s1 = (if makeAutoMove_guard E s then calculateAndPlayBestMove_issue E s else s)
      in s1\<lparr> gameEndMessage := endMessage E (game s) \<rparr>)"

subsection \<open>Manual moves\<close>

text \<open>
  A function of the source that sets state and returns a value returns the pair of the
  value and the new state. No handler reads a field after it has written it, so reading
  from the state that is threaded through is reading from the values of the render.
  The typographic apostrophe of two messages is ASCII here.
\<close>

definition isValidManualMove :: "'p engine \<Rightarrow> 'p app \<Rightarrow> bool \<times> 'p app" where
  "isValidManualMove E s =
     (if playerColor s = None
      then (False, s\<lparr> errorMessage := Some ''Please select a color first'' \<rparr>)
      else if isAnalyzing s
      then (False, s\<lparr> errorMessage := Some ''Please wait, calculating move...'' \<rparr>)
      else if isGameOver E (game s)
      then (False, s\<lparr> errorMessage := Some ''Game is over'' \<rparr>)
      else if manualColor s \<noteq> None \<and> Some (turn E (game s)) \<noteq> manualColor s
      then (False, s\<lparr> errorMessage := Some ''It is not the opponent's turn to move'' \<rparr>)
      else (True, s))"

definition validateManualMove :: "'p engine \<Rightarrow> string \<Rightarrow> string \<Rightarrow> 'p app \<Rightarrow> bool \<times> 'p app" where
  "validateManualMove E from to s =
     (if from = [] \<or> to = []
      then (False, s\<lparr> errorMessage := Some ''Invalid move: Missing source or destination'' \<rparr>)
      else if manualColor s = None then (False, s)
      else
        (case get E (game s) from of
           None \<Rightarrow> (False, s\<lparr> errorMessage := Some ''No piece at selected position'' \<rparr>)
         | Some pc \<Rightarrow>
             (if Some (pcolor pc) \<noteq> manualColor s
              then (False,
                    s\<lparr> errorMessage := Some ''You can only move the opponent's pieces manually'' \<rparr>)
              else if \<not> list_ex (\<lambda>m. mto m = to) (moves E (game s) from)
              then (False, s\<lparr> errorMessage := Some ''Illegal move for this piece'' \<rparr>)
              else (True, s))))"

definition makeManualMove :: "'p engine \<Rightarrow> string \<Rightarrow> string \<Rightarrow> 'p app \<Rightarrow> bool \<times> 'p app" where
  "makeManualMove E from to s =
     (case isValidManualMove E s of
        (False, s1) \<Rightarrow> (False, s1)
      | (True, s1) \<Rightarrow>
          (case validateManualMove E from to s1 of
             (False, s2) \<Rightarrow> (False, s2)
           | (True, s2) \<Rightarrow>
               (case move E (load E (fen E (game s))) (MoveObj from to ''q'') of
                  MoveThrows \<Rightarrow>
                    (False,
                     s2\<lparr> errorMessage := Some ''Error making manual move'',
                         selectedSquare := None,
                         possibleMoves := [] \<rparr>)
                | MoveNull \<Rightarrow> (False, s2\<lparr> errorMessage := Some ''Invalid manual move'' \<rparr>)
                | MoveOk newGame san \<Rightarrow>
                    (True,
                     s2\<lparr> game := newGame,
                         currentPosition := Some (fen E newGame),
                         moveHistory := moveHistory s2 @ [san],
                         positions := positions s2 @ [fen E newGame],
                         currentMoveIndex := currentMoveIndex s2 + 1,
                         selectedSquare := None,
                         possibleMoves := [],
                         errorMessage := None \<rparr>))))"

definition getMoveOptions :: "'p engine \<Rightarrow> string \<Rightarrow> 'p app \<Rightarrow> string list \<times> 'p app" where
  "getMoveOptions E square s =
     (case isValidManualMove E s of
        (False, s1) \<Rightarrow> ([], s1)
      | (True, s1) \<Rightarrow> (map mto (moves E (game s) square), s1))"

text \<open>Lines 184 to 192 and 195 to 200: select \<open>square\<close> when it holds a piece of the manual side.\<close>

definition selectIfManualPiece :: "'p engine \<Rightarrow> string \<Rightarrow> bool \<Rightarrow> 'p app \<Rightarrow> 'p app" where
  "selectIfManualPiece E square clearOtherwise s =
     (case get E (game s) square of
        None \<Rightarrow>
          (if clearOtherwise then s\<lparr> selectedSquare := None, possibleMoves := [] \<rparr> else s)
      | Some pc \<Rightarrow>
          (if Some (pcolor pc) = manualColor s
           then (case getMoveOptions E square s of
                   (opts, s1) \<Rightarrow>
                     s1\<lparr> selectedSquare := Some square,
                         possibleMoves := opts,
                         errorMessage := None \<rparr>)
           else if clearOtherwise then s\<lparr> selectedSquare := None, possibleMoves := [] \<rparr>
           else s))"

definition onSquareClick :: "'p engine \<Rightarrow> string \<Rightarrow> 'p app \<Rightarrow> 'p app" where
  "onSquareClick E square s =
     (case isValidManualMove E s of
        (False, s1) \<Rightarrow> s1\<lparr> selectedSquare := None, possibleMoves := [] \<rparr>
      | (True, s1) \<Rightarrow>
          (case selectedSquare s of
             Some sel \<Rightarrow>
               (case makeManualMove E sel square s1 of
                  (True, s2) \<Rightarrow> s2
                | (False, s2) \<Rightarrow> selectIfManualPiece E square True s2)
           | None \<Rightarrow> selectIfManualPiece E square False s1))"

definition onDrop :: "'p engine \<Rightarrow> string \<Rightarrow> string \<Rightarrow> 'p app \<Rightarrow> bool \<times> 'p app" where
  "onDrop E sourceSquare targetSquare s = makeManualMove E sourceSquare targetSquare s"

subsection \<open>New game, change of side, navigation\<close>

definition startNewGame :: "'p engine \<Rightarrow> color \<Rightarrow> 'p app \<Rightarrow> 'p app" where
  "startNewGame E c s =
     s\<lparr> game := new_Chess E,
        currentPosition := Some (fen E (new_Chess E)),
        moveHistory := [],
        positions := [fen E (new_Chess E)],
        playerColor := Some c,
        selectedSquare := None,
        possibleMoves := [],
        isAnalyzing := False,
        lastMove := None,
        currentMoveIndex := - 1,
        gameEndMessage := None \<rparr>"

definition changeColor :: "'p app \<Rightarrow> 'p app" where
  "changeColor s = s\<lparr> playerColor := None \<rparr>"

datatype direction = Forward | Back

text \<open>\<^verbatim>\<open>xs[i]\<close> in JavaScript: \<^verbatim>\<open>undefined\<close> (\<open>None\<close>) when \<open>i\<close> is not an index of \<open>xs\<close>.\<close>

definition js_index :: "'a list \<Rightarrow> int \<Rightarrow> 'a option" where
  "js_index xs i = (if 0 \<le> i \<and> i < int (length xs) then Some (xs ! nat i) else None)"

definition navigateMove :: "direction \<Rightarrow> 'p app \<Rightarrow> 'p app" where
  "navigateMove d s =
     (let newIndex =
            (case d of
               Forward \<Rightarrow> min (currentMoveIndex s + 1) (int (length (positions s)) - 1)
             | Back \<Rightarrow> max (currentMoveIndex s - 1) 0)
      in if newIndex \<noteq> currentMoveIndex s
         then s\<lparr> currentMoveIndex := newIndex,
                 currentPosition := js_index (positions s) newIndex \<rparr>
         else s)"

section \<open>Renders, events and runs\<close>

text \<open>
  React runs the body of an effect after a render in which one of its dependencies
  changed; the dependencies of the auto-move effect are
  \<^verbatim>\<open>[game, moveHistory, autoColor, isAnalyzing]\<close> (line 60). The state updates of one handler,
  or of one continuation after the \<^verbatim>\<open>await\<close>, are applied together and followed by one render.

  \<^verbatim>\<open>game\<close> is compared by identity. A handler replaces it in two ways only: a move, which
  also changes \<^verbatim>\<open>moveHistory\<close>, and \<^verbatim>\<open>startNewGame\<close>, after which the effect always runs.
  For every other handler \<open>depsChanged\<close> compares the remaining dependencies by value.

  The effect sets \<^verbatim>\<open>isAnalyzing\<close> and \<^verbatim>\<open>gameEndMessage\<close> itself, which causes one more
  render and one more run of its body; that run changes nothing (\<open>useEffect_idem\<close> below),
  so one run of the body after each render is all there is to model.
\<close>

definition depsChanged :: "'p app \<Rightarrow> 'p app \<Rightarrow> bool" where
  "depsChanged s s' =
     (\<not> (moveHistory s' = moveHistory s \<and> autoColor s' = autoColor s
          \<and> isAnalyzing s' = isAnalyzing s))"

definition rerender :: "'p engine \<Rightarrow> 'p app \<Rightarrow> 'p app \<Rightarrow> 'p app" where
  "rerender E s s' = (if depsChanged s s' then useEffect E s' else s')"

text \<open>The state after the component has mounted: the effect has run once.\<close>

definition App_mount :: "'p engine \<Rightarrow> 'p app" where
  "App_mount E = useEffect E (App_init E)"

text \<open>
  What can happen to the component. \<open>OracleSettles i h\<close>: the \<open>i\<close>-th outstanding call of
  \<^verbatim>\<open>getBestMoveOnline\<close> settles, \<open>h\<close> being what \<^verbatim>\<open>axios.post\<close> did.
\<close>

datatype event =
    StartNewGame color
  | ChangeColor
  | NavigateMove direction
  | SquareClick string
  | PieceDrop string string
  | OracleSettles nat http_result

definition remove_nth :: "nat \<Rightarrow> 'a list \<Rightarrow> 'a list" where
  "remove_nth i xs = take i xs @ drop (Suc i) xs"

text \<open>
  One event, with the render that follows it. While \<^verbatim>\<open>playerColor\<close> is \<^verbatim>\<open>null\<close> the component
  renders the two start buttons only (lines 269 to 293), so the board and the side panel,
  and with them every event but \<open>StartNewGame\<close> and \<open>OracleSettles\<close>, are not there.
  The side panel offers less than the model allows: its New Game button starts a game
  with the side already chosen, and its navigation buttons are disabled at the ends
  (back while the cursor is at most \<open>0\<close>, forward while it is at least the last index).
  Every state the component reaches is a state of some run of the model.
\<close>

fun step :: "'p engine \<Rightarrow> event \<Rightarrow> 'p app \<Rightarrow> 'p app" where
  "step E (StartNewGame c) s = useEffect E (startNewGame E c s)"
| "step E ChangeColor s =
     (if playerColor s = None then s else rerender E s (changeColor s))"
| "step E (NavigateMove d) s =
     (if playerColor s = None then s else rerender E s (navigateMove d s))"
| "step E (SquareClick square) s =
     (if playerColor s = None then s else rerender E s (onSquareClick E square s))"
| "step E (PieceDrop sourceSquare targetSquare) s =
     (if playerColor s = None then s
      else rerender E s (snd (onDrop E sourceSquare targetSquare s)))"
| "step E (OracleSettles i h) s =
     (if i < length (pending s)
      then rerender E s
             (snd (calculateAndPlayBestMove_resume E (pending s ! i) (getBestMoveOnline h)
                     (s\<lparr> pending := remove_nth i (pending s) \<rparr>)))
      else s)"

fun exec :: "'p engine \<Rightarrow> event list \<Rightarrow> 'p app \<Rightarrow> 'p app" where
  "exec E [] s = s"
| "exec E (e # es) s = exec E es (step E e s)"

fun isStartNewGame :: "event \<Rightarrow> bool" where
  "isStartNewGame (StartNewGame c) = True"
| "isStartNewGame e = False"

fun isOracleSettles :: "event \<Rightarrow> bool" where
  "isOracleSettles (OracleSettles i h) = True"
| "isOracleSettles e = False"

text \<open>The \<open>i\<close>-th outstanding request resolves with the text \<open>t\<close>.\<close>

definition oracleAnswers :: "nat \<Rightarrow> string \<Rightarrow> event" where
  "oracleAnswers i t = OracleSettles i (PostReturns True (Some t))"

text \<open>A run in which \<open>StartNewGame\<close> happens only while no oracle call is outstanding.\<close>

fun restartFree :: "'p engine \<Rightarrow> event list \<Rightarrow> 'p app \<Rightarrow> bool" where
  "restartFree E [] s = True"
| "restartFree E (e # es) s =
     ((if isStartNewGame e then pending s = [] else True) \<and> restartFree E es (step E e s))"

section \<open>The specification's notions\<close>





text \<open>
  Section 4.1: a move application appends the new position \<open>p\<close> to the history and its
  notation \<open>n\<close> to the move log; \<open>p\<close> becomes the live and the displayed position.
\<close>

definition appended :: "'p engine \<Rightarrow> 'p app \<Rightarrow> 'p \<Rightarrow> string \<Rightarrow> 'p app \<Rightarrow> bool" where
  "appended E s p n s' =
     (positions s' = positions s @ [fen E p] \<and> moveHistory s' = moveHistory s @ [n]
      \<and> game s' = p \<and> currentPosition s' = Some (fen E p))"

text \<open>
  Section 7: an error shows a notice and empties the selection, and leaves the session
  as it is. \<open>onlyNotice s s'\<close>: the two states agree on every field other than
  \<^verbatim>\<open>errorMessage\<close>, \<^verbatim>\<open>selectedSquare\<close> and \<^verbatim>\<open>possibleMoves\<close>.
\<close>

definition onlyNotice :: "'p app \<Rightarrow> 'p app \<Rightarrow> bool" where
  "onlyNotice s s' =
     (game s' = game s \<and> moveHistory s' = moveHistory s \<and> positions s' = positions s
      \<and> currentMoveIndex s' = currentMoveIndex s \<and> currentPosition s' = currentPosition s
      \<and> isAnalyzing s' = isAnalyzing s \<and> playerColor s' = playerColor s
      \<and> lastMove s' = lastMove s \<and> gameEndMessage s' = gameEndMessage s
      \<and> pending s' = pending s)"

text \<open>
  Sections 3 and 8: the move log is one shorter than the history, and the cursor is at
  most the last index, so that \<open>history[cursor]\<close> is defined once the cursor is not
  negative. Before the first game the history is empty.
\<close>

definition sessionInv :: "'p app \<Rightarrow> bool" where
  "sessionInv s =
     ((if positions s = []
       then moveHistory s = [] \<and> playerColor s = None \<and> pending s = []
       else int (length (moveHistory s)) = int (length (positions s)) - 1)
      \<and> - 1 \<le> currentMoveIndex s
      \<and> currentMoveIndex s \<le> int (length (positions s)) - 1
      \<and> (if 0 \<le> currentMoveIndex s
           then js_index (positions s) (currentMoveIndex s) \<noteq> None
           else True))"

text \<open>
  Section 5: the awaiting state stands for exactly one outstanding request, issued for
  the live position.
\<close>

definition singleRequest :: "'p app \<Rightarrow> bool" where
  "singleRequest s = (if isAnalyzing s then pending s = [game s] else pending s = [])"

text \<open>Section 3: the live position is the last entry of the history.\<close>

definition liveIsLast :: "'p engine \<Rightarrow> 'p app \<Rightarrow> bool" where
  "liveIsLast E s = (if positions s = [] then True else last (positions s) = fen E (game s))"

text \<open>Whether the text names a move that is legal in the position the request was issued for.\<close>

definition namesLegalMove :: "'p engine \<Rightarrow> 'p \<Rightarrow> string \<Rightarrow> bool" where
  "namesLegalMove E g t =
     (case move E (load E (fen E g)) (MoveText t) of
        MoveOk p n \<Rightarrow> True
      | MoveThrows \<Rightarrow> False
      | MoveNull \<Rightarrow> False)"

section \<open>A small engine for concrete runs\<close>

text \<open>
  A position is the number of plies played, and its FEN is \<open>p\<close> followed by one \<open>m\<close> for
  each ply. White moves at even positions. The squares
  \<open>w1\<close> and \<open>b1\<close> hold a white and a black piece, every other square is empty; a piece of
  the side to move can go to \<open>t1\<close>. The oracle text \<open>go\<close> is a legal move everywhere, the
  text \<open>null\<close> makes \<open>move\<close> return \<^verbatim>\<open>null\<close>, any other text makes it throw.
\<close>

definition counterGet :: "string \<Rightarrow> piece option" where
  "counterGet sq =
     (if sq = ''w1'' then Some \<lparr> pcolor = W, ptype = ''p'' \<rparr>
      else if sq = ''b1'' then Some \<lparr> pcolor = B, ptype = ''p'' \<rparr>
      else None)"

definition counterTurn :: "nat \<Rightarrow> color" where
  "counterTurn n = (if even n then W else B)"

definition counterMovable :: "nat \<Rightarrow> string \<Rightarrow> bool" where
  "counterMovable n sq = (map_option pcolor (counterGet sq) = Some (counterTurn n))"

definition counterMove :: "nat \<Rightarrow> move_arg \<Rightarrow> nat move_result" where
  "counterMove n a =
     (case a of
        MoveText t \<Rightarrow>
          (if t = ''go'' then MoveOk (Suc n) ''go''
           else if t = ''null'' then MoveNull
           else MoveThrows)
      | MoveObj from to promotion \<Rightarrow>
          (if counterMovable n from \<and> to = ''t1'' then MoveOk (Suc n) (from @ to)
           else MoveThrows))"

definition counterEngine :: "nat engine" where
  "counterEngine =
     \<lparr> new_Chess = 0,
       load = (\<lambda>f. length f - 1),
       fen = (\<lambda>n. CHR ''p'' # replicate n (CHR ''m'')),
       turn = counterTurn,
       isGameOver = (\<lambda>n. False),
       isCheckmate = (\<lambda>n. False),
       isDraw = (\<lambda>n. False),
       isStalemate = (\<lambda>n. False),
       isThreefoldRepetition = (\<lambda>n. False),
       isInsufficientMaterial = (\<lambda>n. False),
       get = (\<lambda>n. counterGet),
       moves = (\<lambda>n sq. if counterMovable n sq then [\<lparr> mfrom = sq, mto = ''t1'' \<rparr>] else []),
       move = counterMove \<rparr>"

text \<open>The runs and states used as concrete inputs below.\<close>

definition oracleGo :: http_result where
  "oracleGo = PostReturns True (Some ''go'')"

text \<open>The oracle plays White and has made its first move; the manual side is to move.\<close>

definition afterOracleMove :: "nat app" where
  "afterOracleMove = exec counterEngine [StartNewGame W, OracleSettles 0 oracleGo]
                       (App_mount counterEngine)"

text \<open>The oracle plays White and has been asked for its first move.\<close>

definition awaitingFirstMove :: "nat app" where
  "awaitingFirstMove = exec counterEngine [StartNewGame W] (App_mount counterEngine)"

text \<open>The oracle plays Black; the manual side (White) is to move in the initial position.\<close>

definition manualToMove :: "nat app" where
  "manualToMove = exec counterEngine [StartNewGame B] (App_mount counterEngine)"

text \<open>
  The oracle plays White. After one move of each side the oracle is asked for its second
  move; while that request is outstanding, the New Game button is pressed.
\<close>

definition restartedWhileAwaiting :: "nat app" where
  "restartedWhileAwaiting =
     exec counterEngine
       [StartNewGame W, OracleSettles 0 oracleGo, PieceDrop ''b1'' ''t1'', StartNewGame W]
       (App_mount counterEngine)"



section \<open>Basic facts about the handlers\<close>

lemma onlyNotice_refl [simp]: "onlyNotice s s"
  by (simp add: onlyNotice_def)

lemma onlyNotice_trans: "onlyNotice s s1 \<Longrightarrow> onlyNotice s1 s2 \<Longrightarrow> onlyNotice s s2"
  by (simp add: onlyNotice_def)

lemma onlyNotice_update [simp]:
  "onlyNotice s (s'\<lparr> errorMessage := m \<rparr>) = onlyNotice s s'"
  "onlyNotice s (s'\<lparr> selectedSquare := q \<rparr>) = onlyNotice s s'"
  "onlyNotice s (s'\<lparr> possibleMoves := pm \<rparr>) = onlyNotice s s'"
  by (simp_all add: onlyNotice_def)

lemma isValidManualMove_cases:
  "isValidManualMove E s = (ok, s1) \<Longrightarrow>
     (if ok then s1 = s \<and> playerColor s \<noteq> None \<and> \<not> isAnalyzing s \<and> \<not> isGameOver E (game s)
                 \<and> Some (turn E (game s)) = manualColor s
      else onlyNotice s s1)"
  by (auto simp add: isValidManualMove_def manualColor_def split: if_splits option.splits)

lemma validateManualMove_cases:
  "validateManualMove E a b s = (ok, s1) \<Longrightarrow> (if ok then s1 = s else onlyNotice s s1)"
  by (auto simp add: validateManualMove_def split: if_splits option.splits)

lemma makeManualMove_cases:
  "makeManualMove E a b s = (ok, s') \<Longrightarrow>
     (if ok
      then playerColor s \<noteq> None \<and> \<not> isAnalyzing s \<and> \<not> isGameOver E (game s)
           \<and> (\<exists>p n. move E (load E (fen E (game s))) (MoveObj a b ''q'') = MoveOk p n
                \<and> appended E s p n s')
           \<and> currentMoveIndex s' = currentMoveIndex s + 1
           \<and> isAnalyzing s' = isAnalyzing s \<and> playerColor s' = playerColor s
           \<and> pending s' = pending s
      else onlyNotice s s')"
proof -
  assume a: "makeManualMove E a b s = (ok, s')"
  obtain ok1 s1 where v1: "isValidManualMove E s = (ok1, s1)" by (cases "isValidManualMove E s")
  obtain ok2 s2 where v2: "validateManualMove E a b s1 = (ok2, s2)" by (cases "validateManualMove E a b s1")
  note c1 = isValidManualMove_cases [OF v1]
  note c2 = validateManualMove_cases [OF v2]
  show ?thesis
  proof (cases "ok1 \<and> ok2")
    case False
    with a v1 v2 c1 c2 show ?thesis
      by (cases ok1; cases ok2) (auto simp add: makeManualMove_def)
  next
    case True
    with c1 c2 have s1: "s1 = s" "s2 = s"
      and val: "playerColor s \<noteq> None" "\<not> isAnalyzing s" "\<not> isGameOver E (game s)"
      by auto
    from a v1 v2 True s1 val show ?thesis
      by (cases "move E (load E (fen E (game s))) (MoveObj a b ''q'')")
         (auto simp add: makeManualMove_def appended_def)
  qed
qed

lemma getMoveOptions_onlyNotice: "getMoveOptions E sq s = (opts, s1) \<Longrightarrow> onlyNotice s s1"
  using isValidManualMove_cases [of E s]
  by (cases "isValidManualMove E s") (auto simp add: getMoveOptions_def split: if_splits bool.splits)

lemma selectIfManualPiece_onlyNotice: "onlyNotice s (selectIfManualPiece E sq b s)"
  using getMoveOptions_onlyNotice [of E sq s]
  by (cases "getMoveOptions E sq s") (auto simp add: selectIfManualPiece_def split: option.splits)

lemma onSquareClick_cases:
  "onlyNotice s (onSquareClick E sq s)
   \<or> (\<exists>sel. selectedSquare s = Some sel \<and> makeManualMove E sel sq s = (True, onSquareClick E sq s))"
proof -
  obtain ok1 s1 where v1: "isValidManualMove E s = (ok1, s1)" by (cases "isValidManualMove E s")
  note c1 = isValidManualMove_cases [OF v1]
  show ?thesis
  proof (cases ok1)
    case False
    with v1 c1 show ?thesis by (simp add: onSquareClick_def)
  next
    case True
    with c1 have s1: "s1 = s" by simp
    show ?thesis
    proof (cases "selectedSquare s")
      case None
      with v1 True s1 show ?thesis
        by (simp add: onSquareClick_def selectIfManualPiece_onlyNotice)
    next
      case (Some sel)
      obtain ok2 s2 where m: "makeManualMove E sel sq s = (ok2, s2)"
        by (cases "makeManualMove E sel sq s")
      show ?thesis
      proof (cases ok2)
        case True
        with v1 \<open>ok1\<close> s1 Some m show ?thesis by (simp add: onSquareClick_def)
      next
        case False
        with makeManualMove_cases [OF m] have "onlyNotice s s2" by simp
        then have "onlyNotice s (selectIfManualPiece E sq True s2)"
          using selectIfManualPiece_onlyNotice onlyNotice_trans by blast
        with v1 \<open>ok1\<close> s1 Some m False show ?thesis by (simp add: onSquareClick_def)
      qed
    qed
  qed
qed


lemmas useEffect_defs = useEffect_def calculateAndPlayBestMove_issue_def Let_def makeAutoMove_guard_def autoColor_def

lemma useEffect_keeps [simp]:
  "game (useEffect E s) = game s"
  "moveHistory (useEffect E s) = moveHistory s"
  "positions (useEffect E s) = positions s"
  "currentMoveIndex (useEffect E s) = currentMoveIndex s"
  "currentPosition (useEffect E s) = currentPosition s"
  "playerColor (useEffect E s) = playerColor s"
  "errorMessage (useEffect E s) = errorMessage s"
  "selectedSquare (useEffect E s) = selectedSquare s"
  "possibleMoves (useEffect E s) = possibleMoves s"
  "lastMove (useEffect E s) = lastMove s"
  by (simp_all add: useEffect_def calculateAndPlayBestMove_issue_def Let_def)

lemma useEffect_pending:
  "pending (useEffect E s) = (if makeAutoMove_guard E s then pending s @ [game s] else pending s)"
  by (auto simp add: useEffect_defs)

lemma useEffect_isAnalyzing:
  "isAnalyzing (useEffect E s) = (isAnalyzing s \<or> makeAutoMove_guard E s)"
  by (auto simp add: useEffect_defs)

lemma useEffect_idem: "useEffect E (useEffect E s) = useEffect E s"
  by (auto simp add: useEffect_defs)

lemma rerender_keeps [simp]:
  "game (rerender E s s') = game s'"
  "moveHistory (rerender E s s') = moveHistory s'"
  "positions (rerender E s s') = positions s'"
  "currentMoveIndex (rerender E s s') = currentMoveIndex s'"
  "currentPosition (rerender E s s') = currentPosition s'"
  "playerColor (rerender E s s') = playerColor s'"
  "errorMessage (rerender E s s') = errorMessage s'"
  "selectedSquare (rerender E s s') = selectedSquare s'"
  "possibleMoves (rerender E s s') = possibleMoves s'"
  "lastMove (rerender E s s') = lastMove s'"
  by (simp_all add: rerender_def)

lemma resume_cases:
  "calculateAndPlayBestMove_resume E g r s = (out, s') \<Longrightarrow>
     \<not> isAnalyzing s' \<and> playerColor s' = playerColor s \<and> pending s' = pending s
     \<and> (if out = Played
         then (\<exists>t p n. r = Inr t \<and> t \<noteq> [] \<and> move E (load E (fen E g)) (MoveText t) = MoveOk p n
                 \<and> appended E s p n s')
              \<and> currentMoveIndex s' = currentMoveIndex s + 1
         else positions s' = positions s \<and> moveHistory s' = moveHistory s \<and> game s' = game s
              \<and> currentMoveIndex s' = currentMoveIndex s
              \<and> currentPosition s' = currentPosition s)"
  by (auto simp add: calculateAndPlayBestMove_resume_def calculateAndPlayBestMove_try_def
        appended_def split: sum.splits if_splits move_result.splits)

section \<open>The invariant of the session\<close>

lemma sessionInv_alt:
  "sessionInv s =
     ((if positions s = []
       then moveHistory s = [] \<and> playerColor s = None \<and> pending s = []
       else int (length (moveHistory s)) = int (length (positions s)) - 1)
      \<and> - 1 \<le> currentMoveIndex s
      \<and> currentMoveIndex s \<le> int (length (positions s)) - 1)"
  by (auto simp add: sessionInv_def js_index_def)

lemma sessionInv_useEffect: "sessionInv s \<Longrightarrow> sessionInv (useEffect E s)"
  by (auto simp add: sessionInv_alt useEffect_pending makeAutoMove_guard_def autoColor_def)

lemma sessionInv_rerender: "sessionInv s' \<Longrightarrow> sessionInv (rerender E s s')"
  by (simp add: rerender_def sessionInv_useEffect)

lemma sessionInv_onlyNotice: "onlyNotice s s' \<Longrightarrow> sessionInv s \<Longrightarrow> sessionInv s'"
  by (simp add: sessionInv_alt onlyNotice_def)

lemma sessionInv_appended:
  "appended E s p n s' \<Longrightarrow> currentMoveIndex s' = currentMoveIndex s + 1 \<Longrightarrow> positions s \<noteq> []
   \<Longrightarrow> sessionInv s \<Longrightarrow> sessionInv s'"
  by (auto simp add: sessionInv_alt appended_def js_index_def)

lemma sessionInv_startNewGame: "sessionInv (startNewGame E c s)"
  by (simp add: sessionInv_alt startNewGame_def)

lemma sessionInv_changeColor: "sessionInv s \<Longrightarrow> sessionInv (changeColor s)"
  by (auto simp add: sessionInv_alt changeColor_def)

lemma sessionInv_navigateMove:
  "sessionInv s \<Longrightarrow> positions s \<noteq> [] \<Longrightarrow> sessionInv (navigateMove d s)"
  by (cases d) (auto simp add: sessionInv_alt navigateMove_def js_index_def Let_def)


lemma sessionInv_started: "sessionInv s \<Longrightarrow> playerColor s \<noteq> None \<Longrightarrow> positions s \<noteq> []"
  by (auto simp add: sessionInv_alt)

lemma sessionInv_pending: "sessionInv s \<Longrightarrow> i < length (pending s) \<Longrightarrow> positions s \<noteq> []"
  by (auto simp add: sessionInv_alt)

lemma sessionInv_makeManualMove:
  assumes "sessionInv s" shows "sessionInv (snd (makeManualMove E a b s))"
proof -
  obtain ok s' where m: "makeManualMove E a b s = (ok, s')" by (cases "makeManualMove E a b s")
  show ?thesis
  proof (cases ok)
    case True
    with makeManualMove_cases [OF m] obtain p n where
      "appended E s p n s'" "currentMoveIndex s' = currentMoveIndex s + 1" "playerColor s \<noteq> None"
      by auto
    with assms m show ?thesis
      using sessionInv_appended sessionInv_started by fastforce
  next
    case False
    with makeManualMove_cases [OF m] assms m show ?thesis
      using sessionInv_onlyNotice by fastforce
  qed
qed

lemma sessionInv_onSquareClick:
  assumes "sessionInv s" shows "sessionInv (onSquareClick E sq s)"
  using onSquareClick_cases [of s E sq]
proof
  assume "onlyNotice s (onSquareClick E sq s)"
  with assms show ?thesis by (rule sessionInv_onlyNotice [rotated])
next
  assume "\<exists>sel. selectedSquare s = Some sel
            \<and> makeManualMove E sel sq s = (True, onSquareClick E sq s)"
  then obtain sel where "makeManualMove E sel sq s = (True, onSquareClick E sq s)" by blast
  with sessionInv_makeManualMove [OF assms, of E sel sq] show ?thesis by simp
qed

lemma sessionInv_settle:
  assumes "sessionInv s" "i < length (pending s)"
  shows "sessionInv (snd (calculateAndPlayBestMove_resume E g r (s\<lparr> pending := remove_nth i (pending s) \<rparr>)))"
proof -
  let ?s0 = "s\<lparr> pending := remove_nth i (pending s) \<rparr>"
  obtain out s' where m: "calculateAndPlayBestMove_resume E g r ?s0 = (out, s')"
    by (cases "calculateAndPlayBestMove_resume E g r ?s0")
  from assms have ne: "positions s \<noteq> []" by (rule sessionInv_pending)
  with assms have inv0: "sessionInv ?s0" by (simp add: sessionInv_alt)
  show ?thesis
  proof (cases "out = Played")
    case True
    with resume_cases [OF m] obtain p n where
      "appended E ?s0 p n s'" "currentMoveIndex s' = currentMoveIndex ?s0 + 1"
      by auto
    with inv0 ne m show ?thesis
      using sessionInv_appended [of E ?s0 p n s'] by simp
  next
    case False
    with resume_cases [OF m] inv0 ne m show ?thesis
      by (simp add: sessionInv_alt)
  qed
qed

lemma sessionInv_step: "sessionInv s \<Longrightarrow> sessionInv (step E e s)"
proof (cases e)
  case (StartNewGame c)
  then show ?thesis by (simp add: sessionInv_useEffect sessionInv_startNewGame)
next
  case ChangeColor
  assume "sessionInv s"
  with ChangeColor show ?thesis by (simp add: sessionInv_rerender sessionInv_changeColor)
next
  case (NavigateMove d)
  assume "sessionInv s"
  with NavigateMove show ?thesis
    by (simp add: sessionInv_rerender sessionInv_navigateMove sessionInv_started)
next
  case (SquareClick sq)
  assume "sessionInv s"
  with SquareClick show ?thesis by (simp add: sessionInv_rerender sessionInv_onSquareClick)
next
  case (PieceDrop a b)
  assume "sessionInv s"
  with PieceDrop show ?thesis
    by (simp add: sessionInv_rerender sessionInv_makeManualMove onDrop_def)
next
  case (OracleSettles i h)
  assume "sessionInv s"
  with OracleSettles show ?thesis by (simp add: sessionInv_rerender sessionInv_settle)
qed

lemma sessionInv_exec: "sessionInv s \<Longrightarrow> sessionInv (exec E evs s)"
  by (induction evs arbitrary: s) (simp_all add: sessionInv_step)

lemma sessionInv_mount: "sessionInv (App_mount E)"
  by (simp add: App_mount_def sessionInv_alt App_init_def useEffect_pending makeAutoMove_guard_def autoColor_def)

section \<open>The live position and the outstanding request\<close>

lemma liveIsLast_rerender: "liveIsLast E (rerender E s s') = liveIsLast E s'"
  by (simp add: liveIsLast_def)

lemma liveIsLast_onlyNotice: "onlyNotice s s' \<Longrightarrow> liveIsLast E s \<Longrightarrow> liveIsLast E s'"
  by (simp add: liveIsLast_def onlyNotice_def)

lemma liveIsLast_appended: "appended E s p n s' \<Longrightarrow> liveIsLast E s'"
  by (simp add: liveIsLast_def appended_def)

lemma liveIsLast_makeManualMove:
  assumes "liveIsLast E s" shows "liveIsLast E (snd (makeManualMove E a b s))"
proof -
  obtain ok s' where m: "makeManualMove E a b s = (ok, s')" by (cases "makeManualMove E a b s")
  have "liveIsLast E s'"
  proof (cases ok)
    case True
    with makeManualMove_cases [OF m] obtain p n where "appended E s p n s'" by auto
    then show ?thesis by (rule liveIsLast_appended)
  next
    case False
    with makeManualMove_cases [OF m] have "onlyNotice s s'" by simp
    then show ?thesis using assms by (rule liveIsLast_onlyNotice)
  qed
  with m show ?thesis by simp
qed

lemma liveIsLast_onSquareClick:
  assumes "liveIsLast E s" shows "liveIsLast E (onSquareClick E sq s)"
  using onSquareClick_cases [of s E sq]
proof
  assume "onlyNotice s (onSquareClick E sq s)"
  with assms show ?thesis by (rule liveIsLast_onlyNotice [rotated])
next
  assume "\<exists>sel. selectedSquare s = Some sel
            \<and> makeManualMove E sel sq s = (True, onSquareClick E sq s)"
  then obtain sel where "makeManualMove E sel sq s = (True, onSquareClick E sq s)" by blast
  with liveIsLast_makeManualMove [OF assms, of sel sq] show ?thesis by simp
qed

lemma liveIsLast_settle:
  assumes "liveIsLast E s"
  shows "liveIsLast E (snd (calculateAndPlayBestMove_resume E g r (s\<lparr> pending := ps \<rparr>)))"
proof -
  let ?s0 = "s\<lparr> pending := ps \<rparr>"
  obtain out s' where m: "calculateAndPlayBestMove_resume E g r ?s0 = (out, s')"
    by (cases "calculateAndPlayBestMove_resume E g r ?s0")
  have "liveIsLast E s'"
  proof (cases "out = Played")
    case True
    with resume_cases [OF m] obtain p n where "appended E ?s0 p n s'" by auto
    then show ?thesis by (rule liveIsLast_appended)
  next
    case False
    with resume_cases [OF m] assms show ?thesis by (simp add: liveIsLast_def)
  qed
  with m show ?thesis by simp
qed

lemma liveIsLast_step: "liveIsLast E s \<Longrightarrow> liveIsLast E (step E e s)"
proof (cases e)
  case (StartNewGame c)
  then show ?thesis by (simp add: liveIsLast_def startNewGame_def)
next
  case ChangeColor
  assume "liveIsLast E s"
  with ChangeColor show ?thesis by (simp add: liveIsLast_def changeColor_def)
next
  case (NavigateMove d)
  assume "liveIsLast E s"
  with NavigateMove show ?thesis by (simp add: liveIsLast_def navigateMove_def Let_def)
next
  case (SquareClick sq)
  assume "liveIsLast E s"
  with SquareClick show ?thesis by (simp add: liveIsLast_rerender liveIsLast_onSquareClick)
next
  case (PieceDrop a b)
  assume "liveIsLast E s"
  with PieceDrop show ?thesis
    by (simp add: liveIsLast_rerender liveIsLast_makeManualMove onDrop_def)
next
  case (OracleSettles i h)
  assume "liveIsLast E s"
  with OracleSettles show ?thesis by (simp add: liveIsLast_rerender liveIsLast_settle)
qed

lemma liveIsLast_exec: "liveIsLast E s \<Longrightarrow> liveIsLast E (exec E evs s)"
  by (induction evs arbitrary: s) (simp_all add: liveIsLast_step)

lemma liveIsLast_mount: "liveIsLast E (App_mount E)"
  by (simp add: App_mount_def liveIsLast_def App_init_def)

lemma reachable_last:
  assumes "playerColor (exec E evs (App_mount E)) \<noteq> None \<or> pending (exec E evs (App_mount E)) \<noteq> []"
  shows "last (positions (exec E evs (App_mount E))) = fen E (game (exec E evs (App_mount E)))"
proof -
  have "sessionInv (exec E evs (App_mount E))"
    by (simp add: sessionInv_exec sessionInv_mount)
  with assms have "positions (exec E evs (App_mount E)) \<noteq> []"
    by (auto simp add: sessionInv_alt)
  moreover have "liveIsLast E (exec E evs (App_mount E))"
    by (simp add: liveIsLast_exec liveIsLast_mount)
  ultimately show ?thesis by (simp add: liveIsLast_def)
qed

lemma singleRequest_useEffect: "singleRequest s \<Longrightarrow> singleRequest (useEffect E s)"
  by (auto simp add: singleRequest_def useEffect_pending useEffect_isAnalyzing makeAutoMove_guard_def)

lemma singleRequest_rerender: "singleRequest s' \<Longrightarrow> singleRequest (rerender E s s')"
  by (simp add: rerender_def singleRequest_useEffect)

lemma singleRequest_onlyNotice: "onlyNotice s s' \<Longrightarrow> singleRequest s \<Longrightarrow> singleRequest s'"
  by (simp add: singleRequest_def onlyNotice_def)

lemma singleRequest_makeManualMove:
  assumes "singleRequest s" shows "singleRequest (snd (makeManualMove E a b s))"
proof -
  obtain ok s' where m: "makeManualMove E a b s = (ok, s')" by (cases "makeManualMove E a b s")
  have "singleRequest s'"
  proof (cases ok)
    case True
    with makeManualMove_cases [OF m] assms show ?thesis by (simp add: singleRequest_def)
  next
    case False
    with makeManualMove_cases [OF m] have "onlyNotice s s'" by simp
    then show ?thesis using assms by (rule singleRequest_onlyNotice)
  qed
  with m show ?thesis by simp
qed

lemma singleRequest_onSquareClick:
  assumes "singleRequest s" shows "singleRequest (onSquareClick E sq s)"
  using onSquareClick_cases [of s E sq]
proof
  assume "onlyNotice s (onSquareClick E sq s)"
  with assms show ?thesis by (rule singleRequest_onlyNotice [rotated])
next
  assume "\<exists>sel. selectedSquare s = Some sel
            \<and> makeManualMove E sel sq s = (True, onSquareClick E sq s)"
  then obtain sel where "makeManualMove E sel sq s = (True, onSquareClick E sq s)" by blast
  with singleRequest_makeManualMove [OF assms, of E sel sq] show ?thesis by simp
qed

lemma singleRequest_settle:
  assumes "singleRequest s" "i < length (pending s)"
  shows "singleRequest (snd (calculateAndPlayBestMove_resume E g r (s\<lparr> pending := remove_nth i (pending s) \<rparr>)))"
proof -
  let ?s0 = "s\<lparr> pending := remove_nth i (pending s) \<rparr>"
  obtain out s' where m: "calculateAndPlayBestMove_resume E g r ?s0 = (out, s')"
    by (cases "calculateAndPlayBestMove_resume E g r ?s0")
  from assms have "pending s = [game s]" and "i = 0"
    by (auto simp add: singleRequest_def split: if_splits)
  then have "pending ?s0 = []" by (simp add: remove_nth_def)
  with resume_cases [OF m] have "singleRequest s'" by (simp add: singleRequest_def)
  with m show ?thesis by simp
qed

lemma singleRequest_step:
  assumes "singleRequest s" "if isStartNewGame e then pending s = [] else True"
  shows "singleRequest (step E e s)"
proof (cases e)
  case (StartNewGame c)
  with assms have "pending s = []" by simp
  then have "singleRequest (startNewGame E c s)" by (simp add: singleRequest_def startNewGame_def)
  with StartNewGame show ?thesis by (simp add: singleRequest_useEffect)
next
  case ChangeColor
  from assms(1) have "singleRequest (useEffect E (changeColor s))"
    by (auto simp add: singleRequest_def changeColor_def useEffect_pending useEffect_isAnalyzing
          makeAutoMove_guard_def autoColor_def)
  moreover from assms(1) have "singleRequest (changeColor s)"
    by (simp add: singleRequest_def changeColor_def)
  ultimately show ?thesis using ChangeColor assms(1) by (simp add: rerender_def)
next
  case (NavigateMove d)
  from assms(1) have "singleRequest (navigateMove d s)"
    by (simp add: singleRequest_def navigateMove_def Let_def)
  with NavigateMove assms(1) show ?thesis by (simp add: singleRequest_rerender)
next
  case (SquareClick sq)
  with assms(1) show ?thesis by (simp add: singleRequest_rerender singleRequest_onSquareClick)
next
  case (PieceDrop a b)
  with assms(1) show ?thesis
    by (simp add: singleRequest_rerender singleRequest_makeManualMove onDrop_def)
next
  case (OracleSettles i h)
  with assms(1) show ?thesis by (simp add: singleRequest_rerender singleRequest_settle)
qed

lemma singleRequest_exec:
  "singleRequest s \<Longrightarrow> restartFree E evs s \<Longrightarrow> singleRequest (exec E evs s)"
  by (induction evs arbitrary: s) (simp_all add: singleRequest_step)

lemma singleRequest_mount: "singleRequest (App_mount E)"
  by (simp add: App_mount_def singleRequest_def App_init_def useEffect_pending useEffect_isAnalyzing
        makeAutoMove_guard_def autoColor_def)

section \<open>Manual move attempts and the specification's errors\<close>












section \<open>The oracle's answer\<close>

lemma rerender_awaiting:
  "isAnalyzing s' \<Longrightarrow> pending (rerender E s s') = pending s' \<and> isAnalyzing (rerender E s s')"
  by (simp add: rerender_def useEffect_pending useEffect_isAnalyzing makeAutoMove_guard_def)

lemma onSquareClick_awaiting:
  assumes "isAnalyzing s" shows "onlyNotice s (onSquareClick E sq s)"
  using onSquareClick_cases [of s E sq]
proof
  assume "onlyNotice s (onSquareClick E sq s)"
  then show ?thesis .
next
  assume "\<exists>sel. selectedSquare s = Some sel
            \<and> makeManualMove E sel sq s = (True, onSquareClick E sq s)"
  then obtain sel where "makeManualMove E sel sq s = (True, onSquareClick E sq s)" by blast
  from makeManualMove_cases [OF this] assms show ?thesis by simp
qed

lemma makeManualMove_awaiting:
  assumes "isAnalyzing s" shows "onlyNotice s (snd (makeManualMove E a b s))"
proof -
  obtain ok s' where m: "makeManualMove E a b s = (ok, s')" by (cases "makeManualMove E a b s")
  from makeManualMove_cases [OF m] assms m show ?thesis by (cases ok) simp_all
qed

lemma step_awaiting:
  assumes a: "isAnalyzing s" and e: "\<not> isStartNewGame e" "\<not> isOracleSettles e"
  shows "pending (step E e s) = pending s \<and> isAnalyzing (step E e s)"
proof (cases e)
  case (StartNewGame c)
  with e show ?thesis by simp
next
  case ChangeColor
  from a have "isAnalyzing (changeColor s)" "pending (changeColor s) = pending s"
    by (simp_all add: changeColor_def)
  with rerender_awaiting [of "changeColor s" E s] ChangeColor a show ?thesis by simp
next
  case (NavigateMove d)
  from a have "isAnalyzing (navigateMove d s)" "pending (navigateMove d s) = pending s"
    by (simp_all add: navigateMove_def Let_def)
  with rerender_awaiting [of "navigateMove d s" E s] NavigateMove a show ?thesis by simp
next
  case (SquareClick sq)
  from onSquareClick_awaiting [OF a, of E sq] a
  have "isAnalyzing (onSquareClick E sq s)" "pending (onSquareClick E sq s) = pending s"
    by (simp_all add: onlyNotice_def)
  with rerender_awaiting [of "onSquareClick E sq s" E s] SquareClick a show ?thesis by simp
next
  case (PieceDrop x y)
  from makeManualMove_awaiting [OF a, of E x y] a
  have "isAnalyzing (snd (makeManualMove E x y s))"
    "pending (snd (makeManualMove E x y s)) = pending s"
    by (simp_all add: onlyNotice_def)
  with rerender_awaiting [of "snd (makeManualMove E x y s)" E s] PieceDrop a show ?thesis
    by (simp add: onDrop_def)
next
  case (OracleSettles i h)
  with e show ?thesis by simp
qed

lemma settle_applied:
  assumes i: "i < length (pending s)" and t: "t \<noteq> []"
    and m: "move E (load E (fen E (pending s ! i))) (MoveText t) = MoveOk p n"
  shows "appended E s p n (step E (oracleAnswers i t) s)"
  using assms
  by (simp add: oracleAnswers_def getBestMoveOnline_def truthy_def appended_def
        calculateAndPlayBestMove_resume_def calculateAndPlayBestMove_try_def)

lemma settle_refused:
  assumes i: "i < length (pending s)" and a: "isAnalyzing s"
    and m: "\<not> namesLegalMove E (pending s ! i) t"
  shows "positions (step E (oracleAnswers i t) s) = positions s
    \<and> moveHistory (step E (oracleAnswers i t) s) = moveHistory s
    \<and> game (step E (oracleAnswers i t) s) = game s
    \<and> playerColor (step E (oracleAnswers i t) s) = playerColor s
    \<and> errorMessage (step E (oracleAnswers i t) s)
        = Some (if t \<noteq> [] \<and> move E (load E (fen E (pending s ! i))) (MoveText t) = MoveNull
                then ''Invalid AI move'' else ''Error calculating move'')
    \<and> isAnalyzing (step E (oracleAnswers i t) s)
        = (playerColor s = Some (turn E (game s)) \<and> \<not> isGameOver E (game s))
    \<and> pending (step E (oracleAnswers i t) s)
        = remove_nth i (pending s)
          @ (if playerColor s = Some (turn E (game s)) \<and> \<not> isGameOver E (game s)
             then [game s] else [])"
proof -
  let ?s0 = "s\<lparr> pending := remove_nth i (pending s) \<rparr>"
  let ?msg = "if t \<noteq> [] \<and> move E (load E (fen E (pending s ! i))) (MoveText t) = MoveNull
                then ''Invalid AI move'' else ''Error calculating move''"
  let ?s1 = "?s0\<lparr> errorMessage := Some ?msg, isAnalyzing := False, selectedSquare := None,
                   possibleMoves := [] \<rparr>"
  from m have r: "snd (calculateAndPlayBestMove_resume E (pending s ! i)
                   (getBestMoveOnline (PostReturns True (Some t))) ?s0) = ?s1"
    by (cases "move E (load E (fen E (pending s ! i))) (MoveText t)")
       (simp_all add: namesLegalMove_def getBestMoveOnline_def truthy_def
          calculateAndPlayBestMove_resume_def calculateAndPlayBestMove_try_def)
  from a have d: "depsChanged s ?s1" by (simp add: depsChanged_def)
  from i r d have "step E (oracleAnswers i t) s = useEffect E ?s1"
    by (simp add: oracleAnswers_def rerender_def)
  then show ?thesis
    by (simp add: useEffect_pending useEffect_isAnalyzing makeAutoMove_guard_def autoColor_def)
       (auto)
qed

section \<open>Navigation\<close>

lemma navigateMove_keeps:
  "positions (navigateMove d s) = positions s"
  "moveHistory (navigateMove d s) = moveHistory s"
  "game (navigateMove d s) = game s"
  by (simp_all add: navigateMove_def Let_def)

lemma navigateMove_clamped:
  assumes "positions s \<noteq> []" "- 1 \<le> currentMoveIndex s"
    "currentMoveIndex s \<le> int (length (positions s)) - 1"
  shows "0 \<le> currentMoveIndex (navigateMove d s)
     \<and> currentMoveIndex (navigateMove d s) \<le> int (length (positions s)) - 1
     \<and> \<bar>currentMoveIndex (navigateMove d s) - currentMoveIndex s\<bar> \<le> 1"
proof -
  from assms(1) have len: "1 \<le> int (length (positions s))" by (cases "positions s") simp_all
  show ?thesis
  proof (cases d)
    case Forward
    with assms len show ?thesis by (auto simp add: navigateMove_def Let_def min_def)
  next
    case Back
    with assms len show ?thesis by (auto simp add: navigateMove_def Let_def max_def)
  qed
qed

lemma navigateMove_bounds:
  "currentMoveIndex s = int (length (positions s)) - 1 \<Longrightarrow> navigateMove Forward s = s"
  "currentMoveIndex s = 0 \<Longrightarrow> navigateMove Back s = s"
  by (simp_all add: navigateMove_def Let_def)

lemma navigate_forward_back:
  assumes "playerColor s \<noteq> None" "0 \<le> currentMoveIndex s"
    "currentMoveIndex s + 1 \<le> int (length (positions s)) - 1"
  shows "currentMoveIndex (exec E [NavigateMove Forward, NavigateMove Back] s) = currentMoveIndex s
     \<and> currentPosition (exec E [NavigateMove Forward, NavigateMove Back] s)
         = Some (positions s ! nat (currentMoveIndex s))"
  using assms by (auto simp add: navigateMove_def js_index_def Let_def)

lemma navigate_back_forward:
  assumes "playerColor s \<noteq> None" "1 \<le> currentMoveIndex s"
    "currentMoveIndex s \<le> int (length (positions s)) - 1"
  shows "currentMoveIndex (exec E [NavigateMove Back, NavigateMove Forward] s) = currentMoveIndex s
     \<and> currentPosition (exec E [NavigateMove Back, NavigateMove Forward] s)
         = Some (positions s ! nat (currentMoveIndex s))"
  using assms by (auto simp add: navigateMove_def js_index_def Let_def)

section \<open>The concrete runs, evaluated\<close>

lemma afterOracleMove_eval:
  "playerColor afterOracleMove = Some W"
  "currentMoveIndex afterOracleMove = 0"
  "positions afterOracleMove = [''p'', ''pm'']"
  "currentPosition afterOracleMove = Some ''pm''"
  by code_simp+


lemma awaitingFirstMove_eval:
  "isAnalyzing awaitingFirstMove" "pending awaitingFirstMove = [0]" "game awaitingFirstMove = 0"
  "playerColor awaitingFirstMove = Some W" "positions awaitingFirstMove = [''p'']"
  "moveHistory awaitingFirstMove = []"
  by code_simp+

lemma restartedWhileAwaiting_eval:
  "pending restartedWhileAwaiting = [2, 0]" "positions restartedWhileAwaiting = [''p'']"
  "moveHistory restartedWhileAwaiting = []" "game restartedWhileAwaiting = 0"
  "currentMoveIndex restartedWhileAwaiting = - 1"
  by code_simp+

section \<open>The claims\<close>

subsection \<open>C1: an answer that arrives after the position has changed\<close>

text \<open>
  The oracle plays White. Its second request is issued for the position after two plies
  (FEN \<open>pmm\<close>). Before the answer arrives the New Game button is pressed: the history is
  the initial position alone, and the first request of the new game is outstanding as
  well. The answer to the old request is then applied to the old position, and the
  result (FEN \<open>pmmm\<close>) is appended to the history of the new game and becomes its live
  position.
\<close>

theorem stale_answer_is_applied:
  "pending restartedWhileAwaiting = [2, 0]
   \<and> positions restartedWhileAwaiting = [''p'']
   \<and> fen counterEngine 2 = ''pmm''
   \<and> positions (step counterEngine (oracleAnswers 0 ''go'') restartedWhileAwaiting)
       = [''p'', ''pmmm'']
   \<and> moveHistory (step counterEngine (oracleAnswers 0 ''go'') restartedWhileAwaiting) = [''go'']
   \<and> game (step counterEngine (oracleAnswers 0 ''go'') restartedWhileAwaiting) = 3"
  by code_simp

text \<open>
  Claim C1, amended. The code compares nothing when an answer arrives. An answer that
  names a legal move of the position its request was issued for is always applied to
  that position: the result becomes the live position and is appended, with its
  notation, to the history and the move log as they are at that moment, whatever the
  current position is. An answer can be stale only after a start-new-game during the
  request: in every run in which start-new-game happens only while no request is
  outstanding, an outstanding request was issued for the live position.
\<close>

theorem oracle_answer_always_applied:
  "(i < length (pending s) \<and> t \<noteq> []
      \<and> move E (load E (fen E (pending s ! i))) (MoveText t) = MoveOk p n
      \<longrightarrow> appended E s p n (step E (oracleAnswers i t) s))
   \<and> (restartFree E evs (App_mount E)
        \<longrightarrow> pending (exec E evs (App_mount E)) = []
            \<or> pending (exec E evs (App_mount E)) = [game (exec E evs (App_mount E))])"
proof (intro conjI impI)
  assume "i < length (pending s) \<and> t \<noteq> []
      \<and> move E (load E (fen E (pending s ! i))) (MoveText t) = MoveOk p n"
  then show "appended E s p n (step E (oracleAnswers i t) s)"
    by (simp add: settle_applied)
next
  assume "restartFree E evs (App_mount E)"
  then have "singleRequest (exec E evs (App_mount E))"
    by (simp add: singleRequest_exec singleRequest_mount)
  then show "pending (exec E evs (App_mount E)) = []
            \<or> pending (exec E evs (App_mount E)) = [game (exec E evs (App_mount E))]"
    by (simp add: singleRequest_def split: if_splits)
qed

text \<open>
  In the state of the example the answer is applied although the request's position is
  not the last of the history; the run that only starts a game has no restart in it and
  its one request is for the live position.
\<close>

theorem oracle_answer_always_applied_witness:
  "0 < length (pending restartedWhileAwaiting) \<and> ''go'' \<noteq> []
   \<and> move counterEngine (load counterEngine (fen counterEngine (pending restartedWhileAwaiting ! 0)))
        (MoveText ''go'') = MoveOk 3 ''go''
   \<and> fen counterEngine (pending restartedWhileAwaiting ! 0) \<noteq> last (positions restartedWhileAwaiting)
   \<and> positions (step counterEngine (oracleAnswers 0 ''go'') restartedWhileAwaiting)
       = positions restartedWhileAwaiting @ [fen counterEngine 3]
   \<and> restartFree counterEngine [StartNewGame W] (App_mount counterEngine)
   \<and> pending (exec counterEngine [StartNewGame W] (App_mount counterEngine))
       = [game (exec counterEngine [StartNewGame W] (App_mount counterEngine))]"
proof -
  have m: "move counterEngine (load counterEngine (fen counterEngine (pending restartedWhileAwaiting ! 0)))
        (MoveText ''go'') = MoveOk 3 ''go''"
    by code_simp
  have f: "fen counterEngine (pending restartedWhileAwaiting ! 0) \<noteq> last (positions restartedWhileAwaiting)"
    by code_simp
  have r: "restartFree counterEngine [StartNewGame W] (App_mount counterEngine)"
    "pending (exec counterEngine [StartNewGame W] (App_mount counterEngine)) \<noteq> []"
    by code_simp+
  from m f r oracle_answer_always_applied [where i = 0 and s = restartedWhileAwaiting
      and t = "''go''" and E = counterEngine and p = 3 and n = "''go''" and evs = "[StartNewGame W]"]
  show ?thesis by (simp add: appended_def restartedWhileAwaiting_eval)
qed

subsection \<open>C2: what a successful move does\<close>

text \<open>
  Two failures of the claim as stated. In the state of the example for C1, the move
  \<open>go\<close> applied to the last position of the history would give the FEN \<open>pm\<close>, but the
  oracle path appends \<open>pmmm\<close>. And the first manual move of a game leaves a history of two
  entries with the cursor at \<open>0\<close>, not at the last index \<open>1\<close>.
\<close>

theorem move_not_from_last_and_cursor_behind:
  "positions restartedWhileAwaiting = [''p'']
   \<and> move counterEngine (load counterEngine (last (positions restartedWhileAwaiting))) (MoveText ''go'')
       = MoveOk 1 ''go''
   \<and> fen counterEngine 1 = ''pm''
   \<and> positions (step counterEngine (oracleAnswers 0 ''go'') restartedWhileAwaiting)
       = [''p'', ''pmmm'']
   \<and> fst (makeManualMove counterEngine ''w1'' ''t1'' manualToMove)
   \<and> positions (snd (makeManualMove counterEngine ''w1'' ''t1'' manualToMove)) = [''p'', ''pm'']
   \<and> currentMoveIndex (snd (makeManualMove counterEngine ''w1'' ''t1'' manualToMove)) = 0"
  by code_simp

text \<open>
  Claim C2, amended. In every reachable state a successful manual move computes the new
  position and its notation from the last position of the history (never from the
  position under the cursor), and a successful oracle move computes them from the position
  its request was issued for, which is the last position of the history in every run in
  which start-new-game happens only while no request is outstanding. Either path appends
  exactly one entry to the history and one to the move log, and the new position becomes
  the live and the displayed one. (Nothing is said about the cursor.)
\<close>

theorem move_application:
  "(makeManualMove E origin dest (exec E evs (App_mount E)) = (True, s')
      \<longrightarrow> (\<exists>p n. move E (load E (last (positions (exec E evs (App_mount E)))))
                    (MoveObj origin dest ''q'') = MoveOk p n
                \<and> appended E (exec E evs (App_mount E)) p n s'))
   \<and> (i < length (pending s) \<and> t \<noteq> []
        \<and> move E (load E (fen E (pending s ! i))) (MoveText t) = MoveOk p n
        \<longrightarrow> appended E s p n (step E (oracleAnswers i t) s))
   \<and> (restartFree E evs (App_mount E) \<and> i < length (pending (exec E evs (App_mount E)))
        \<longrightarrow> fen E (pending (exec E evs (App_mount E)) ! i)
              = last (positions (exec E evs (App_mount E))))"
proof (intro conjI impI)
  let ?s = "exec E evs (App_mount E)"
  assume m: "makeManualMove E origin dest ?s = (True, s')"
  from makeManualMove_cases [OF m] obtain p n where
    pc: "playerColor ?s \<noteq> None"
    and mv: "move E (load E (fen E (game ?s))) (MoveObj origin dest ''q'') = MoveOk p n"
    and ap: "appended E ?s p n s'"
    by auto
  from pc have "last (positions ?s) = fen E (game ?s)" by (simp add: reachable_last)
  with mv ap show "\<exists>p n. move E (load E (last (positions ?s))) (MoveObj origin dest ''q'') = MoveOk p n
                \<and> appended E ?s p n s'"
    by auto
next
  assume "i < length (pending s) \<and> t \<noteq> []
        \<and> move E (load E (fen E (pending s ! i))) (MoveText t) = MoveOk p n"
  then show "appended E s p n (step E (oracleAnswers i t) s)"
    by (simp add: settle_applied)
next
  let ?s = "exec E evs (App_mount E)"
  assume a: "restartFree E evs (App_mount E) \<and> i < length (pending ?s)"
  then have "singleRequest ?s" by (simp add: singleRequest_exec singleRequest_mount)
  with a have "pending ?s ! i = game ?s"
    by (auto simp add: singleRequest_def split: if_splits)
  moreover from a have "pending ?s \<noteq> []" by auto
  then have "last (positions ?s) = fen E (game ?s)" by (simp add: reachable_last)
  ultimately show "fen E (pending ?s ! i) = last (positions ?s)" by simp
qed

text \<open>
  White's first manual move with Black as the oracle side; the oracle's first move as
  White; and the run with one start, whose request is for the last position.
\<close>

theorem move_application_witness:
  "makeManualMove counterEngine ''w1'' ''t1'' manualToMove
     = (True, snd (makeManualMove counterEngine ''w1'' ''t1'' manualToMove))
   \<and> (\<exists>p n. move counterEngine (load counterEngine (last (positions manualToMove)))
                 (MoveObj ''w1'' ''t1'' ''q'') = MoveOk p n
          \<and> appended counterEngine manualToMove p n
               (snd (makeManualMove counterEngine ''w1'' ''t1'' manualToMove)))
   \<and> 0 < length (pending awaitingFirstMove) \<and> ''go'' \<noteq> []
   \<and> move counterEngine (load counterEngine (fen counterEngine (pending awaitingFirstMove ! 0)))
        (MoveText ''go'') = MoveOk 1 ''go''
   \<and> appended counterEngine awaitingFirstMove 1 ''go''
        (step counterEngine (oracleAnswers 0 ''go'') awaitingFirstMove)
   \<and> restartFree counterEngine [StartNewGame W] (App_mount counterEngine)
   \<and> fen counterEngine (pending awaitingFirstMove ! 0) = last (positions awaitingFirstMove)"
proof -
  note inst = move_application [where E = counterEngine and origin = "''w1''" and dest = "''t1''"
      and s' = "snd (makeManualMove counterEngine ''w1'' ''t1'' manualToMove)"
      and i = 0 and s = awaitingFirstMove and t = "''go''" and p = 1 and n = "''go''"]
  have a: "makeManualMove counterEngine ''w1'' ''t1'' manualToMove
     = (True, snd (makeManualMove counterEngine ''w1'' ''t1'' manualToMove))"
    by code_simp
  have b: "0 < length (pending awaitingFirstMove)" "''go'' \<noteq> []"
    "move counterEngine (load counterEngine (fen counterEngine (pending awaitingFirstMove ! 0)))
        (MoveText ''go'') = MoveOk 1 ''go''"
    by code_simp+
  have c: "restartFree counterEngine [StartNewGame W] (App_mount counterEngine)"
    by code_simp
  from a inst [where evs = "[StartNewGame B]", folded manualToMove_def]
  have 1: "\<exists>p n. move counterEngine (load counterEngine (last (positions manualToMove)))
                 (MoveObj ''w1'' ''t1'' ''q'') = MoveOk p n
          \<and> appended counterEngine manualToMove p n
               (snd (makeManualMove counterEngine ''w1'' ''t1'' manualToMove))"
    by blast
  from b inst [where evs = "[]"]
  have 2: "appended counterEngine awaitingFirstMove 1 ''go''
        (step counterEngine (oracleAnswers 0 ''go'') awaitingFirstMove)"
    by blast
  from b c inst [where evs = "[StartNewGame W]", folded awaitingFirstMove_def]
  have 3: "fen counterEngine (pending awaitingFirstMove ! 0) = last (positions awaitingFirstMove)"
    by blast
  from a b c 1 2 3 show ?thesis by blast
qed

subsection \<open>C3: the invariant\<close>

text \<open>
  The state in which the component mounts has an empty history and an empty move log,
  and its cursor is \<open>-1\<close>: the lengths differ by zero, not by one, and the cursor is
  negative. (The engine plays no part in it.)
\<close>

theorem initial_state_outside_invariant:
  "int (length (moveHistory (App_mount counterEngine)))
     \<noteq> int (length (positions (App_mount counterEngine))) - 1
   \<and> \<not> 0 \<le> currentMoveIndex (App_mount counterEngine)"
  by (simp add: App_mount_def App_init_def)

text \<open>
  Claim C3, amended. In every state that a run of events reaches from the mounted
  component: once a game has been started (the history is not empty) the move log is
  exactly one shorter than the history; before that both are empty, no side is chosen
  and no request is outstanding. The cursor is at least \<open>-1\<close> and at most the last
  index of the history, and whenever it is not negative \<open>history[cursor]\<close> is defined.
\<close>

theorem session_invariant: "sessionInv (exec E evs (App_mount E))"
  by (simp add: sessionInv_exec sessionInv_mount)

subsection \<open>C4: start-new-game\<close>

text \<open>
  Claim C4, evaluated on the code. From any state and with any engine,
  \<^verbatim>\<open>startNewGame\<close> (followed by its render) leaves a history of exactly one entry, the
  initial position, and an empty move log, and it shows the initial position; but it
  sets the cursor to \<open>-1\<close>, where the claim says \<open>0\<close>. The position shown is
  \<open>history[0]\<close> while the cursor is not an index of the history.
\<close>

theorem startNewGame_state:
  "positions (step E (StartNewGame c) s) = [fen E (new_Chess E)]
   \<and> moveHistory (step E (StartNewGame c) s) = []
   \<and> currentMoveIndex (step E (StartNewGame c) s) = - 1
   \<and> currentPosition (step E (StartNewGame c) s) = Some (fen E (new_Chess E))"
  by (simp add: startNewGame_def)

subsection \<open>C5: the errors of a manual move attempt\<close>




subsection \<open>C6: outstanding requests\<close>

text \<open>
  The oracle plays White. Starting a game issues a request; pressing New Game while it
  is outstanding clears \<^verbatim>\<open>isAnalyzing\<close>, and the effect issues a second request: two are
  outstanding.
\<close>

theorem second_request_after_restart:
  "length (pending (exec counterEngine [StartNewGame W, StartNewGame W] (App_mount counterEngine))) = 2
   \<and> length (pending (exec counterEngine [StartNewGame W] (App_mount counterEngine))) = 1"
  by code_simp

text \<open>
  Claim C6, amended. The effect issues a request only while \<^verbatim>\<open>isAnalyzing\<close> is false, and
  entering the awaiting state issues exactly one, for the live position. While
  \<^verbatim>\<open>isAnalyzing\<close> is true, no change of side, navigation, click or drop issues a request or
  ends the awaiting state. In every run in which start-new-game happens only while no
  request is outstanding, \<^verbatim>\<open>isAnalyzing\<close> is true exactly when one request is outstanding,
  and never more than one is. (\<^verbatim>\<open>startNewGame\<close> clears \<^verbatim>\<open>isAnalyzing\<close> and cancels nothing.)
\<close>

theorem one_request_while_awaiting:
  "(isAnalyzing s \<longrightarrow> pending (useEffect E s) = pending s)
   \<and> (\<not> isAnalyzing s \<and> isAnalyzing (useEffect E s)
        \<longrightarrow> pending (useEffect E s) = pending s @ [game s])
   \<and> (isAnalyzing s \<and> \<not> isStartNewGame e \<and> \<not> isOracleSettles e
        \<longrightarrow> pending (step E e s) = pending s \<and> isAnalyzing (step E e s))
   \<and> (restartFree E evs (App_mount E) \<longrightarrow> singleRequest (exec E evs (App_mount E)))"
proof (intro conjI impI)
  assume "isAnalyzing s"
  then show "pending (useEffect E s) = pending s"
    by (simp add: useEffect_pending makeAutoMove_guard_def)
next
  assume "\<not> isAnalyzing s \<and> isAnalyzing (useEffect E s)"
  then show "pending (useEffect E s) = pending s @ [game s]"
    by (auto simp add: useEffect_pending useEffect_isAnalyzing)
next
  assume "isAnalyzing s \<and> \<not> isStartNewGame e \<and> \<not> isOracleSettles e"
  then show "pending (step E e s) = pending s" by (simp add: step_awaiting)
next
  assume "isAnalyzing s \<and> \<not> isStartNewGame e \<and> \<not> isOracleSettles e"
  then show "isAnalyzing (step E e s)" by (simp add: step_awaiting)
next
  assume "restartFree E evs (App_mount E)"
  then show "singleRequest (exec E evs (App_mount E))"
    by (simp add: singleRequest_exec singleRequest_mount)
qed

text \<open>
  While the first request is outstanding a piece drop issues nothing; and a run with one
  start, a navigation and the oracle's answer keeps to one request at a time.
\<close>

theorem one_request_while_awaiting_witness:
  "isAnalyzing awaitingFirstMove
   \<and> \<not> isStartNewGame (PieceDrop ''b1'' ''t1'') \<and> \<not> isOracleSettles (PieceDrop ''b1'' ''t1'')
   \<and> pending (useEffect counterEngine awaitingFirstMove) = [0]
   \<and> pending (step counterEngine (PieceDrop ''b1'' ''t1'') awaitingFirstMove) = [0]
   \<and> restartFree counterEngine [StartNewGame W, NavigateMove Forward, oracleAnswers 0 ''go'']
        (App_mount counterEngine)
   \<and> singleRequest (exec counterEngine [StartNewGame W, NavigateMove Forward, oracleAnswers 0 ''go'']
        (App_mount counterEngine))"
proof -
  have r: "restartFree counterEngine [StartNewGame W, NavigateMove Forward, oracleAnswers 0 ''go'']
        (App_mount counterEngine)"
    by code_simp
  from r one_request_while_awaiting [where s = awaitingFirstMove and E = counterEngine
      and e = "PieceDrop ''b1'' ''t1''"
      and evs = "[StartNewGame W, NavigateMove Forward, oracleAnswers 0 ''go'']"]
  show ?thesis by (simp add: awaitingFirstMove_eval)
qed

subsection \<open>C7: navigation\<close>

text \<open>
  Claim C7, evaluated on the code. A navigation step changes neither the history nor the
  move log nor the live position. In a started game it moves the cursor by at most one
  step, into the range from \<open>0\<close> to the last index, and it does nothing forward at the
  last index and nothing back at \<open>0\<close>. A step forward followed by a step back, or a step
  back followed by a step forward, both within the range, restores the cursor, and the
  position displayed afterwards is \<open>history[cursor]\<close>. That is the position displayed
  before only if the display agreed with the cursor, and after a move it does not: the
  move shows the new last position and leaves the cursor one short of it.
\<close>

theorem navigate_round_trip:
  "positions (navigateMove d s) = positions s
   \<and> moveHistory (navigateMove d s) = moveHistory s
   \<and> game (navigateMove d s) = game s
   \<and> (positions s \<noteq> [] \<and> - 1 \<le> currentMoveIndex s
        \<and> currentMoveIndex s \<le> int (length (positions s)) - 1
        \<longrightarrow> 0 \<le> currentMoveIndex (navigateMove d s)
            \<and> currentMoveIndex (navigateMove d s) \<le> int (length (positions s)) - 1
            \<and> \<bar>currentMoveIndex (navigateMove d s) - currentMoveIndex s\<bar> \<le> 1)
   \<and> (currentMoveIndex s = int (length (positions s)) - 1 \<longrightarrow> navigateMove Forward s = s)
   \<and> (currentMoveIndex s = 0 \<longrightarrow> navigateMove Back s = s)
   \<and> (playerColor s \<noteq> None \<and> 0 \<le> currentMoveIndex s
        \<and> currentMoveIndex s + 1 \<le> int (length (positions s)) - 1
        \<longrightarrow> currentMoveIndex (exec E [NavigateMove Forward, NavigateMove Back] s)
              = currentMoveIndex s
            \<and> currentPosition (exec E [NavigateMove Forward, NavigateMove Back] s)
                = Some (positions s ! nat (currentMoveIndex s)))
   \<and> (playerColor s \<noteq> None \<and> 1 \<le> currentMoveIndex s
        \<and> currentMoveIndex s \<le> int (length (positions s)) - 1
        \<longrightarrow> currentMoveIndex (exec E [NavigateMove Back, NavigateMove Forward] s)
              = currentMoveIndex s
            \<and> currentPosition (exec E [NavigateMove Back, NavigateMove Forward] s)
                = Some (positions s ! nat (currentMoveIndex s)))"
proof -
  note navigateMove_keeps [of d s]
  moreover have "positions s \<noteq> [] \<and> - 1 \<le> currentMoveIndex s
        \<and> currentMoveIndex s \<le> int (length (positions s)) - 1
        \<longrightarrow> 0 \<le> currentMoveIndex (navigateMove d s)
            \<and> currentMoveIndex (navigateMove d s) \<le> int (length (positions s)) - 1
            \<and> \<bar>currentMoveIndex (navigateMove d s) - currentMoveIndex s\<bar> \<le> 1"
    using navigateMove_clamped [of s d] by blast
  moreover have "currentMoveIndex s = int (length (positions s)) - 1 \<longrightarrow> navigateMove Forward s = s"
    using navigateMove_bounds(1) [of s] by blast
  moreover have "currentMoveIndex s = 0 \<longrightarrow> navigateMove Back s = s"
    using navigateMove_bounds(2) [of s] by blast
  moreover have "playerColor s \<noteq> None \<and> 0 \<le> currentMoveIndex s
        \<and> currentMoveIndex s + 1 \<le> int (length (positions s)) - 1
        \<longrightarrow> currentMoveIndex (exec E [NavigateMove Forward, NavigateMove Back] s)
              = currentMoveIndex s
            \<and> currentPosition (exec E [NavigateMove Forward, NavigateMove Back] s)
                = Some (positions s ! nat (currentMoveIndex s))"
    using navigate_forward_back [of s E] by blast
  moreover have "playerColor s \<noteq> None \<and> 1 \<le> currentMoveIndex s
        \<and> currentMoveIndex s \<le> int (length (positions s)) - 1
        \<longrightarrow> currentMoveIndex (exec E [NavigateMove Back, NavigateMove Forward] s)
              = currentMoveIndex s
            \<and> currentPosition (exec E [NavigateMove Back, NavigateMove Forward] s)
                = Some (positions s ! nat (currentMoveIndex s))"
    using navigate_back_forward [of s E] by blast
  ultimately show ?thesis by blast
qed

text \<open>
  The failing input: the oracle (White) has made the first move, so the history has two
  entries, the cursor is \<open>0\<close> and the second entry is displayed. Forward then back stays
  within the range and restores the cursor, and the first entry is displayed.
\<close>

theorem navigate_round_trip_witness:
  "playerColor afterOracleMove \<noteq> None \<and> 0 \<le> currentMoveIndex afterOracleMove
   \<and> currentMoveIndex afterOracleMove + 1 \<le> int (length (positions afterOracleMove)) - 1
   \<and> currentPosition afterOracleMove = Some ''pm''
   \<and> currentPosition (exec counterEngine [NavigateMove Forward, NavigateMove Back] afterOracleMove)
        = Some ''p''
   \<and> currentMoveIndex (exec counterEngine [NavigateMove Forward, NavigateMove Back] afterOracleMove)
        = 0"
  using navigate_round_trip [where s = afterOracleMove and E = counterEngine]
  by (simp add: afterOracleMove_eval)

subsection \<open>C8: an answer that is not a legal move\<close>

text \<open>
  The oracle plays White and answers its first request with a text that the engine does
  not accept. The error is shown and the position is kept, but the component is awaiting
  again at once: clearing \<^verbatim>\<open>isAnalyzing\<close> changes a dependency of the effect, the effect
  runs, finds the oracle's side still to move, and issues a new request.
\<close>

theorem refused_answer_is_retried:
  "pending awaitingFirstMove = [0]
   \<and> \<not> namesLegalMove counterEngine 0 ''null''
   \<and> isAnalyzing (step counterEngine (oracleAnswers 0 ''null'') awaitingFirstMove)
   \<and> pending (step counterEngine (oracleAnswers 0 ''null'') awaitingFirstMove) = [0]
   \<and> errorMessage (step counterEngine (oracleAnswers 0 ''null'') awaitingFirstMove)
       = Some ''Invalid AI move''"
  by code_simp

text \<open>
  Claim C8, amended. When the answer to an outstanding request (the component is
  awaiting) is not a legal move of the position the request was issued for, the history,
  the move log, the live position (and so the side to move) and the side assignment are
  unchanged, and an error is shown: \<open>Invalid AI move\<close> when the engine returns \<^verbatim>\<open>null\<close>,
  \<open>Error calculating move\<close> when it throws. The request is removed and \<^verbatim>\<open>isAnalyzing\<close> is
  cleared; the render that follows runs the effect, which issues a new request for the
  live position exactly when that position is not over and the oracle's side is to move
  in it. The component is idle afterwards only if no such retry is issued.
\<close>

theorem illegal_oracle_text:
  "i < length (pending s) \<Longrightarrow> isAnalyzing s \<Longrightarrow> \<not> namesLegalMove E (pending s ! i) t
   \<Longrightarrow> positions (step E (oracleAnswers i t) s) = positions s
    \<and> moveHistory (step E (oracleAnswers i t) s) = moveHistory s
    \<and> game (step E (oracleAnswers i t) s) = game s
    \<and> playerColor (step E (oracleAnswers i t) s) = playerColor s
    \<and> errorMessage (step E (oracleAnswers i t) s)
        = Some (if t \<noteq> [] \<and> move E (load E (fen E (pending s ! i))) (MoveText t) = MoveNull
                then ''Invalid AI move'' else ''Error calculating move'')
    \<and> isAnalyzing (step E (oracleAnswers i t) s)
        = (playerColor s = Some (turn E (game s)) \<and> \<not> isGameOver E (game s))
    \<and> pending (step E (oracleAnswers i t) s)
        = remove_nth i (pending s)
          @ (if playerColor s = Some (turn E (game s)) \<and> \<not> isGameOver E (game s)
             then [game s] else [])"
  by (rule settle_refused)

text \<open>The same run with a text on which the engine throws.\<close>

theorem illegal_oracle_text_witness:
  "0 < length (pending awaitingFirstMove) \<and> isAnalyzing awaitingFirstMove
   \<and> \<not> namesLegalMove counterEngine (pending awaitingFirstMove ! 0) ''zz''
   \<and> positions (step counterEngine (oracleAnswers 0 ''zz'') awaitingFirstMove) = [''p'']
   \<and> moveHistory (step counterEngine (oracleAnswers 0 ''zz'') awaitingFirstMove) = []
   \<and> errorMessage (step counterEngine (oracleAnswers 0 ''zz'') awaitingFirstMove)
       = Some ''Error calculating move''
   \<and> isAnalyzing (step counterEngine (oracleAnswers 0 ''zz'') awaitingFirstMove)
   \<and> pending (step counterEngine (oracleAnswers 0 ''zz'') awaitingFirstMove) = [0]"
proof -
  have n: "\<not> namesLegalMove counterEngine (pending awaitingFirstMove ! 0) ''zz''"
    by code_simp
  have m: "move counterEngine (load counterEngine (fen counterEngine 0)) (MoveText ''zz'') = MoveThrows"
    by code_simp
  have t: "turn counterEngine 0 = W" "\<not> isGameOver counterEngine 0"
    by code_simp+
  from n m t illegal_oracle_text [of 0 awaitingFirstMove counterEngine "''zz''"]
  show ?thesis by (simp add: awaitingFirstMove_eval remove_nth_def)
qed

subsection \<open>C9: change of side\<close>

text \<open>
  White makes one manual move and the Change Color button is pressed: the history, the
  move log, the cursor and the live position of that game are all still in the state.
\<close>

theorem changeColor_keeps_history:
  "positions (exec counterEngine [PieceDrop ''w1'' ''t1'', ChangeColor] manualToMove)
     = [''p'', ''pm'']
   \<and> moveHistory (exec counterEngine [PieceDrop ''w1'' ''t1'', ChangeColor] manualToMove)
       = [''w1t1'']
   \<and> currentMoveIndex (exec counterEngine [PieceDrop ''w1'' ''t1'', ChangeColor] manualToMove) = 0
   \<and> game (exec counterEngine [PieceDrop ''w1'' ''t1'', ChangeColor] manualToMove) = 1"
  by code_simp

text \<open>
  Claim C9, amended. \<^verbatim>\<open>changeColor\<close> only unsets the side: the history, the move log,
  the cursor, the live and the displayed position, the awaiting flag and the outstanding
  requests stay as they are. The session is replaced by the start-new-game that follows
  (the only action the component offers while no side is chosen), which leaves a history
  of one entry and an empty move log.
\<close>

theorem changeColor_keeps_session:
  "positions (step E ChangeColor s) = positions s
   \<and> moveHistory (step E ChangeColor s) = moveHistory s
   \<and> currentMoveIndex (step E ChangeColor s) = currentMoveIndex s
   \<and> game (step E ChangeColor s) = game s
   \<and> currentPosition (step E ChangeColor s) = currentPosition s
   \<and> pending (step E ChangeColor s) = pending s
   \<and> isAnalyzing (step E ChangeColor s) = isAnalyzing s
   \<and> playerColor (step E ChangeColor s) = None
   \<and> positions (step E (StartNewGame c) (step E ChangeColor s)) = [fen E (new_Chess E)]
   \<and> moveHistory (step E (StartNewGame c) (step E ChangeColor s)) = []"
  by (simp add: changeColor_def rerender_def useEffect_pending useEffect_isAnalyzing
        makeAutoMove_guard_def autoColor_def startNewGame_def)

subsection \<open>C10: what getBestMoveOnline resolves to\<close>

text \<open>
  Claim C10. Whatever \<^verbatim>\<open>axios.post\<close> does, \<^verbatim>\<open>getBestMoveOnline\<close> rejects or resolves to a
  string that is not empty. So the continuation of \<^verbatim>\<open>calculateAndPlayBestMove\<close> never
  leaves through the \<^verbatim>\<open>if (!bestMove)\<close> branch, and when \<^verbatim>\<open>getBestMoveOnline\<close> rejects it
  leaves through the \<^verbatim>\<open>catch\<close> branch, with the message \<open>Error calculating move\<close>.
\<close>

theorem getBestMoveOnline_never_falsy:
  "(case getBestMoveOnline h of Inl e \<Rightarrow> True | Inr t \<Rightarrow> t \<noteq> [])
   \<and> fst (calculateAndPlayBestMove_resume E g (getBestMoveOnline h) s) \<noteq> FailedSuggestion
   \<and> (case getBestMoveOnline h of
         Inl e \<Rightarrow>
           calculateAndPlayBestMove_resume E g (getBestMoveOnline h) s
             = (ErrorCalculating,
                s\<lparr> errorMessage := Some ''Error calculating move'', isAnalyzing := False,
                   selectedSquare := None, possibleMoves := [] \<rparr>)
       | Inr t \<Rightarrow> True)"
  by (auto simp add: getBestMoveOnline_def truthy_def calculateAndPlayBestMove_resume_def
        calculateAndPlayBestMove_try_def
        split: http_result.splits option.splits sum.splits move_result.splits)

text \<open>
  An empty \<^verbatim>\<open>bestmove\<close> makes \<^verbatim>\<open>getBestMoveOnline\<close> reject, and the \<^verbatim>\<open>catch\<close> branch is
  taken; only an empty string passed to the continuation directly would reach the
  \<^verbatim>\<open>if (!bestMove)\<close> branch.
\<close>

theorem getBestMoveOnline_never_falsy_witness:
  "getBestMoveOnline (PostReturns True (Some [])) = Inl NoValidBestMove
   \<and> getBestMoveOnline PostFails = Inl AxiosError
   \<and> fst (calculateAndPlayBestMove_resume counterEngine 0 (getBestMoveOnline (PostReturns True (Some [])))
            manualToMove) = ErrorCalculating
   \<and> fst (calculateAndPlayBestMove_resume counterEngine 0 (Inr []) manualToMove) = FailedSuggestion"
  using getBestMoveOnline_never_falsy [of "PostReturns True (Some [])" counterEngine 0 manualToMove]
  by (simp add: getBestMoveOnline_def truthy_def calculateAndPlayBestMove_resume_def
        calculateAndPlayBestMove_try_def)

end
